theory Spec2Isabelle
  imports Complex_Main
begin

section \<open>JavaScript values used by the pipeline\<close>

text \<open>
  A JavaScript string is a sequence of UTF-16 code units; \<open>length\<close>, \<open>includes\<close>,
  \<open>replace\<close> and the regular expressions of the source (none of which carries the
  \<open>u\<close> flag) all work on code units. A string literal of the source is written
  \<open>js ''...''\<close>; code units beyond ASCII are written as numbers.
  JavaScript numbers are modelled as exact numbers: \<open>real\<close> for confidences,
  \<open>int\<close> for pixel coordinates (NaN, infinities and rounding are not modelled).
\<close>

type_synonym jsstring = "nat list"

definition js :: "string \<Rightarrow> jsstring" where
  "js s = map of_char s"

text \<open>
  The values the variable \<open>correction\<close> of \<open>detectTypos\<close> can hold: \<open>null\<close>, a string,
  and what an object literal inherits from \<open>Object.prototype\<close>: a builtin function
  (given by its name) or, under \<open>__proto__\<close>, that prototype itself.
\<close>

datatype jsval = Undefined | Null | Str jsstring | NativeFunction jsstring | ObjectPrototype

fun truthy :: "jsval \<Rightarrow> bool" where
  "truthy Undefined = False"
| "truthy Null = False"
| "truthy (Str s) = (s \<noteq> [])"
| "truthy (NativeFunction name) = True"
| "truthy ObjectPrototype = True"

fun toString :: "jsval \<Rightarrow> jsstring" where
  "toString Undefined = js ''undefined''"
| "toString Null = js ''null''"
| "toString (Str s) = s"
| "toString (NativeFunction name) = js ''function '' @ name @ js ''() { [native code] }''"
| "toString ObjectPrototype = js ''[object Object]''"

datatype error = TypeError | EngineError

subsection \<open>String builtins\<close>

text \<open>
  \<open>String.prototype.toLowerCase\<close> belongs to the JavaScript engine, not to the
  repository: it follows the case tables of Unicode (the Kelvin sign U+212A becomes
  \<open>k\<close>, U+0130 becomes \<open>i\<close> followed by U+0307, a capital sigma depends on its
  neighbours). It is therefore a parameter, written \<open>toLowerCase\<close>, of every function
  that calls it, and the properties below are proved for every function in its place,
  so for the builtin of any engine. Nothing is assumed about it unless a statement
  says so.
\<close>

text \<open>The character class \<open>\w\<close>, that is \<open>[A-Za-z0-9_]\<close>.\<close>

definition isWordChar :: "nat \<Rightarrow> bool" where
  "isWordChar c = ((48 \<le> c \<and> c \<le> 57) \<or> (65 \<le> c \<and> c \<le> 90) \<or> c = 95 \<or> (97 \<le> c \<and> c \<le> 122))"

fun startsWith :: "jsstring \<Rightarrow> jsstring \<Rightarrow> bool" where
  "startsWith s [] = True"
| "startsWith [] (t # ts) = False"
| "startsWith (c # cs) (t # ts) = (c = t \<and> startsWith cs ts)"

text \<open>\<open>s.includes(t)\<close>: \<open>t\<close> occurs in \<open>s\<close> as a contiguous run.\<close>

fun str_includes :: "jsstring \<Rightarrow> jsstring \<Rightarrow> bool" where
  "str_includes [] t = (t = [])"
| "str_includes (c # cs) t = (startsWith (c # cs) t \<or> str_includes cs t)"

text \<open>\<open>s.replace(/a/g, 'b')\<close> for single code units \<open>a\<close> and \<open>b\<close>.\<close>

definition replaceAll :: "nat \<Rightarrow> nat \<Rightarrow> jsstring \<Rightarrow> jsstring" where
  "replaceAll a b s = map (\<lambda>c. if c = a then b else c) s"

section \<open>The data model\<close>

record bbox =
  x0 :: int
  y0 :: int
  x1 :: int
  y1 :: int
  width :: int
  height :: int

text \<open>
  A word of an OCR result. \<open>detectTypos\<close> tests \<open>wordData.bbox\<close> before reading it, so
  the box is optional here.
\<close>

record wordData =
  w_text :: jsstring
  w_confidence :: real
  w_bbox :: "bbox option"

text \<open>
  The \<open>words\<close> property of an OCR result as \<open>detectTypos\<close> sees it: falsy (absent,
  \<open>undefined\<close>, \<open>null\<close>), a value that is not an array, or an array of words.
\<close>

datatype words_field = NoWords | NotArray | WordArray "wordData list"

record ocrResults =
  r_text :: jsstring
  r_words :: words_field
  r_confidence :: real
  r_word_count :: nat

datatype tier = High | Medium | Low

record position =
  p_x :: int
  p_y :: int

record typo =
  original :: jsstring
  correction :: jsval
  confidence :: tier
  t_bbox :: "bbox option"
  t_position :: position

section \<open>typo-detector.js\<close>

record TypoDetector =
  typoCorrections :: "(jsstring \<times> jsstring) list"
  chineseTypoCorrections :: "(jsstring \<times> jsstring) list"
  commonWords :: "jsstring list"

text \<open>
  The constructor. An object literal keeps its string keys in insertion order, which is
  the order \<open>Object.entries\<close> walks them in, so the tables are association lists.
  The keys and values of the second table are the code units the source file holds.
\<close>

definition new_TypoDetector :: TypoDetector where
  "new_TypoDetector = \<lparr>
     typoCorrections = [
       (js ''sumer'', js ''summer''),
       (js ''familly'', js ''family''),
       (js ''wich'', js ''which''),
       (js ''whether'', js ''weather''),
       (js ''beutiful'', js ''beautiful''),
       (js ''enjoied'', js ''enjoyed''),
       (js ''swiming'', js ''swimming''),
       (js ''favrite'', js ''favorite''),
       (js ''bulding'', js ''building''),
       (js ''resturant'', js ''restaurant''),
       (js ''delisious'', js ''delicious''),
       (js ''cant'', js ''can'' @ [39] @ js ''t''),
       (js ''wont'', js ''won'' @ [39] @ js ''t''),
       (js ''dont'', js ''don'' @ [39] @ js ''t''),
       (js ''teh'', js ''the''),
       (js ''recieve'', js ''receive''),
       (js ''seperate'', js ''separate''),
       (js ''occured'', js ''occurred''),
       (js ''begining'', js ''beginning''),
       (js ''accomodate'', js ''accommodate'')],
     chineseTypoCorrections = [
       ([0xC1, 0xF6, 0xD1], [0xC2, 0xFA, 0x221E]),
       ([0xC2, 0xFA, 0xAE], [0xC2, 0xDC, 0xE7]),
       ([0x2030, 0xAA, 0xF1], [0xC2, 0x2022, 0x3C0]),
       ([0xC8, 0xC7, 0xA3], [0xC2, 0xEC, 0x2122]),
       ([0xC2, 0xC5, 0xF6], [0x2030, 0x3A9, 0xFA]),
       ([0xC2, 0xC9, 0xE8], [0xCB, 0xB1, 0xB0]),
       ([0x2030, 0xAA, 0x2022], [0xC2, 0x2211, 0x2264]),
       ([0xC1, 0xAA, 0xC9], [0xC1, 0xC7, 0xBA])],
     commonWords = map js [
       ''the'', ''and'', ''or'', ''but'', ''in'', ''on'', ''at'', ''to'', ''for'', ''of'', ''with'',
       ''by'', ''from'', ''up'', ''about'', ''into'', ''through'', ''during'', ''before'',
       ''after'', ''above'', ''below'', ''between'', ''among'', ''under'', ''over'',
       ''a'', ''an'', ''is'', ''was'', ''are'', ''were'', ''be'', ''been'', ''being'',
       ''have'', ''has'', ''had'', ''do'', ''does'', ''did'', ''will'', ''would'', ''could'',
       ''should'', ''may'', ''might'', ''must'', ''can'', ''cannot'', ''this'', ''that'',
       ''these'', ''those'', ''i'', ''you'', ''he'', ''she'', ''it'', ''we'', ''they'',
       ''me'', ''him'', ''her'', ''us'', ''them'', ''my'', ''your'', ''his'', ''our'', ''their'',
       ''all'', ''any'', ''both'', ''each'', ''few'', ''more'', ''most'', ''other'', ''some'',
       ''such'', ''no'', ''nor'', ''not'', ''only'', ''own'', ''same'', ''so'', ''than'', ''too'',
       ''very'', ''just'', ''now'', ''here'', ''there'', ''when'', ''where'', ''why'', ''how'',
       ''what'', ''which'', ''who'', ''whom'', ''whose'', ''if'', ''because'', ''as'', ''until'',
       ''while'', ''although'', ''though'', ''since'', ''unless'', ''whether'', ''wherever'']
   \<rparr>"

text \<open>\<open>cleanWord(word)\<close>: \<open>word.toLowerCase().replace(/[^\w]/g, '')\<close>.\<close>

definition cleanWord :: "(jsstring \<Rightarrow> jsstring) \<Rightarrow> jsstring \<Rightarrow> jsstring" where
  "cleanWord toLowerCase word = filter isWordChar (toLowerCase word)"

text \<open>
  The property read \<open>this.typoCorrections[cleanedWord]\<close>: an own property of the table,
  else what the prototype chain of an object literal holds under that name, else
  \<open>undefined\<close>. The inherited names are those of \<open>Object.prototype\<close>; a key without a
  capital letter can spell two of them, \<open>constructor\<close> and \<open>__proto__\<close>.
\<close>

definition inheritedFunctions :: "jsstring list" where
  "inheritedFunctions = map js [
     ''__defineGetter__'', ''__defineSetter__'', ''hasOwnProperty'', ''__lookupGetter__'',
     ''__lookupSetter__'', ''isPrototypeOf'', ''propertyIsEnumerable'', ''toString'',
     ''valueOf'', ''toLocaleString'']"

definition typoCorrections_get :: "TypoDetector \<Rightarrow> jsstring \<Rightarrow> jsval" where
  "typoCorrections_get this k =
     (case map_of (typoCorrections this) k of
        Some v \<Rightarrow> Str v
      | None \<Rightarrow>
          if k = js ''constructor'' then NativeFunction (js ''Object'')
          else if k = js ''__proto__'' then ObjectPrototype
          else if k \<in> set inheritedFunctions then NativeFunction k
          else Undefined)"

text \<open>
  The loop over \<open>Object.entries(this.typoCorrections)\<close>: the first entry whose key occurs
  in the cleaned word or in the lower-cased original word, if any.
\<close>

fun partialMatch :: "(jsstring \<times> jsstring) list \<Rightarrow> jsstring \<Rightarrow> jsstring \<Rightarrow> jsstring option" where
  "partialMatch [] cleanedWord lowered = None"
| "partialMatch ((typo, fix) # entries) cleanedWord lowered =
     (if str_includes cleanedWord typo \<or> str_includes lowered typo then Some fix
      else partialMatch entries cleanedWord lowered)"

text \<open>
  \<open>/[|]{1,}|[1l]{2,}|[0o]{2,}/i.test(s)\<close>: some \<open>|\<close>, or two neighbours among \<open>1\<close>, \<open>l\<close>,
  \<open>L\<close>, or two neighbours among \<open>0\<close>, \<open>o\<close>, \<open>O\<close>. The expression is built anew for every
  word and has no \<open>g\<close> flag, so the test keeps no position between calls.
\<close>

definition is1l :: "nat \<Rightarrow> bool" where
  "is1l c = (c = 49 \<or> c = 108 \<or> c = 76)"

definition is0o :: "nat \<Rightarrow> bool" where
  "is0o c = (c = 48 \<or> c = 111 \<or> c = 79)"

fun suspiciousPatterns :: "jsstring \<Rightarrow> bool" where
  "suspiciousPatterns [] = False"
| "suspiciousPatterns [c] = (c = 124)"
| "suspiciousPatterns (c # d # cs) =
     (c = 124 \<or> (is1l c \<and> is1l d) \<or> (is0o c \<and> is0o d) \<or> suspiciousPatterns (d # cs))"

text \<open>\<open>originalWord.replace(/[|]/g, 'l').replace(/1/g, 'l').replace(/0/g, 'o')\<close>.\<close>

definition suggest :: "jsstring \<Rightarrow> jsstring" where
  "suggest originalWord = replaceAll 48 111 (replaceAll 49 108 (replaceAll 124 108 originalWord))"

text \<open>
  The first part of the loop body: the exact lookup, else the loop over the entries.
  It yields the variables \<open>correction\<close> and \<open>confidence\<close> (\<open>corr\<close> and \<open>conf\<close> below).
\<close>

definition dictionaryLookup ::
  "(jsstring \<Rightarrow> jsstring) \<Rightarrow> TypoDetector \<Rightarrow> jsstring \<Rightarrow> jsstring \<Rightarrow> jsval \<times> tier" where
  "dictionaryLookup toLowerCase this originalWord cleanedWord =
     (if truthy (typoCorrections_get this cleanedWord)
      then (typoCorrections_get this cleanedWord, High)
      else (case partialMatch (typoCorrections this) cleanedWord (toLowerCase originalWord) of
              Some fix \<Rightarrow> (Str fix, High)
            | None \<Rightarrow> (Null, Low)))"

text \<open>The second part: the check against the common words and the glyph patterns.\<close>

definition heuristic ::
  "(jsstring \<Rightarrow> jsstring) \<Rightarrow> TypoDetector \<Rightarrow> jsstring \<Rightarrow> jsstring \<Rightarrow> jsval \<times> tier \<Rightarrow> jsval \<times> tier" where
  "heuristic toLowerCase this originalWord cleanedWord cc =
     (case cc of (corr, conf) \<Rightarrow>
        if \<not> truthy corr \<and> cleanedWord \<notin> set (commonWords this)
        then (if length cleanedWord > 4
              then (if suspiciousPatterns originalWord
                    then (if suggest originalWord \<noteq> originalWord
                          then (Str (toLowerCase (suggest originalWord)), Medium)
                          else (corr, Medium))
                    else (corr, conf))
              else (corr, conf))
        else (corr, conf))"

text \<open>One turn of the loop of \<open>detectTypos\<close>: the candidate pushed for a word, if any.\<close>

definition detectWord :: "(jsstring \<Rightarrow> jsstring) \<Rightarrow> TypoDetector \<Rightarrow> wordData \<Rightarrow> typo option" where
  "detectWord toLowerCase this wordData =
     (let originalWord = w_text wordData;
          cleanedWord = cleanWord toLowerCase originalWord
      in if length cleanedWord < 2 then None
         else (case heuristic toLowerCase this originalWord cleanedWord
                      (dictionaryLookup toLowerCase this originalWord cleanedWord) of
                 (corr, conf) \<Rightarrow>
                   if truthy corr
                   then Some \<lparr> original = originalWord,
                               correction = corr,
                               confidence = conf,
                               t_bbox = w_bbox wordData,
                               t_position = \<lparr> p_x = (case w_bbox wordData of Some b \<Rightarrow> x0 b | None \<Rightarrow> 0),
                                              p_y = (case w_bbox wordData of Some b \<Rightarrow> y0 b | None \<Rightarrow> 0) \<rparr> \<rparr>
                   else None))"

fun detectLoop ::
  "(jsstring \<Rightarrow> jsstring) \<Rightarrow> TypoDetector \<Rightarrow> wordData list \<Rightarrow> typo list \<Rightarrow> typo list" where
  "detectLoop toLowerCase this [] typos = typos"
| "detectLoop toLowerCase this (wordData # rest) typos =
     (case detectWord toLowerCase this wordData of
        None \<Rightarrow> detectLoop toLowerCase this rest typos
      | Some t \<Rightarrow> detectLoop toLowerCase this rest (typos @ [t]))"

text \<open>
  \<open>detectTypos(ocrResults)\<close>, a method of the detector: it returns the list of
  candidates together with the detector object as the call leaves it.
\<close>

definition detectTypos ::
  "(jsstring \<Rightarrow> jsstring) \<Rightarrow> TypoDetector \<Rightarrow> ocrResults \<Rightarrow> typo list \<times> TypoDetector" where
  "detectTypos toLowerCase this ocr =
     (case r_words ocr of
        NoWords \<Rightarrow> ([], this)
      | NotArray \<Rightarrow> ([], this)
      | WordArray ws \<Rightarrow> (detectLoop toLowerCase this ws [], this))"

record stats =
  total :: nat
  high_confidence :: nat
  medium_confidence :: nat
  low_confidence :: nat

definition getTypoStats :: "typo list \<Rightarrow> stats" where
  "getTypoStats typos = \<lparr>
     total = length typos,
     high_confidence = length (filter (\<lambda>t. confidence t = High) typos),
     medium_confidence = length (filter (\<lambda>t. confidence t = Medium) typos),
     low_confidence = length (filter (\<lambda>t. confidence t = Low) typos) \<rparr>"

section \<open>The application class (app.js and its multi-language copy)\<close>

subsection \<open>The normalizer: \<open>processOCRResults\<close>\<close>

text \<open>
  What the engine hands over: \<open>data.text\<close>, \<open>data.confidence\<close> (0 to 100) and
  \<open>data.words\<close>. A missing \<open>words\<close> property, and a missing \<open>bbox\<close> of a word, are
  \<open>None\<close>: reading a property of \<open>undefined\<close> throws a TypeError.
\<close>

record engineBbox =
  e_x0 :: int
  e_y0 :: int
  e_x1 :: int
  e_y1 :: int

record engineWord =
  e_text :: jsstring
  e_confidence :: real
  e_bbox :: "engineBbox option"

record tesseractData =
  d_text :: jsstring
  d_confidence :: real
  d_words :: "engineWord list option"

text \<open>The function given to \<open>tesseractData.words.map\<close>.\<close>

definition convertWord :: "engineWord \<Rightarrow> error + wordData" where
  "convertWord word =
     (case e_bbox word of
        None \<Rightarrow> Inl TypeError
      | Some b \<Rightarrow>
          Inr \<lparr> w_text = e_text word,
                w_confidence = e_confidence word / 100,
                w_bbox = Some \<lparr> x0 = e_x0 b, y0 = e_y0 b, x1 = e_x1 b, y1 = e_y1 b,
                                width = e_x1 b - e_x0 b, height = e_y1 b - e_y0 b \<rparr> \<rparr>)"

fun mapWords :: "engineWord list \<Rightarrow> error + wordData list" where
  "mapWords [] = Inr []"
| "mapWords (word # rest) =
     (case convertWord word of
        Inl e \<Rightarrow> Inl e
      | Inr w \<Rightarrow> (case mapWords rest of Inl e \<Rightarrow> Inl e | Inr ws \<Rightarrow> Inr (w # ws)))"

definition processOCRResults :: "tesseractData \<Rightarrow> error + ocrResults" where
  "processOCRResults tesseractData =
     (case d_words tesseractData of
        None \<Rightarrow> Inl TypeError
      | Some engineWords \<Rightarrow>
          (case mapWords engineWords of
             Inl e \<Rightarrow> Inl e
           | Inr words \<Rightarrow>
               Inr \<lparr> r_text = d_text tesseractData,
                     r_words = WordArray words,
                     r_confidence = d_confidence tesseractData / 100,
                     r_word_count = length words \<rparr>))"

subsection \<open>The retry with the other script: \<open>retryWithTraditionalChinese\<close>\<close>

text \<open>
  This method belongs to the multi-language copy of the application class, which calls
  \<open>this.processOCRResults\<close> without defining it; the method is the one of \<open>app.js\<close>
  above. The first argument is \<open>this.ocrResults\<close> on entry, which
  \<open>processImageWithTesseract\<close> has set to \<open>processOCRResults(data)\<close> of the first pass;
  the second is what the second engine run gives (an exception, or its \<open>data\<close>). The
  result is \<open>this.ocrResults\<close> on exit, which is also the value returned. Whatever is
  thrown inside the \<open>try\<close> is caught and the original results are kept.
\<close>

definition retryWithTraditionalChinese :: "ocrResults \<Rightarrow> error + tesseractData \<Rightarrow> ocrResults" where
  "retryWithTraditionalChinese ocrResults recognized =
     (case recognized of
        Inl e \<Rightarrow> ocrResults
      | Inr data \<Rightarrow>
          (case processOCRResults data of
             Inl e \<Rightarrow> ocrResults
           | Inr retryResults \<Rightarrow>
               if r_confidence retryResults > r_confidence ocrResults + 10
               then retryResults
               else ocrResults))"

subsection \<open>The layout: \<open>drawAnnotations\<close> and \<open>drawLegend\<close>\<close>

text \<open>
  An annotation instruction is what one turn of the loop over the words, or the call of
  \<open>drawLegend\<close>, draws on the canvas: the rectangle given to \<open>strokeRect\<close> with the
  stroke style, line width and opacity in force, the background given to \<open>fillRect\<close>
  (the legend only), and the calls of \<open>fillText\<close> as (fill style, text, x, y). The
  copy of the image drawn first is the background, not an annotation.
\<close>

datatype kind = typoHighlight | plainOutline | legend

record rect =
  rx :: int
  ry :: int
  rw :: int
  rh :: int

record instruction =
  kind :: kind
  i_rect :: rect
  strokeStyle :: string
  lineWidth :: int
  globalAlpha :: real
  background :: "string option"
  texts :: "(string \<times> jsstring \<times> int \<times> int) list"

text \<open>\<open>typos.forEach(typo => typoMap.set(typo.original, typo))\<close>: a later entry replaces
  an earlier one with the same text.\<close>

definition typoMap :: "typo list \<Rightarrow> (jsstring \<rightharpoonup> typo)" where
  "typoMap typos = fold (\<lambda>typo m. m(original typo \<mapsto> typo)) typos Map.empty"

text \<open>One turn of the loop over \<open>ocrResults.words\<close>; \<open>bbox.x0\<close> throws when the word has no box.\<close>

definition drawWord :: "(jsstring \<rightharpoonup> typo) \<Rightarrow> wordData \<Rightarrow> error + instruction" where
  "drawWord tm word =
     (case w_bbox word of
        None \<Rightarrow> Inl TypeError
      | Some bbox \<Rightarrow>
          (case tm (w_text word) of
             Some typo \<Rightarrow>
               Inr \<lparr> kind = typoHighlight,
                     i_rect = \<lparr> rx = x0 bbox, ry = y0 bbox, rw = width bbox, rh = height bbox \<rparr>,
                     strokeStyle = (if confidence typo = High then ''#dc3545'' else ''#ffc107''),
                     lineWidth = 3,
                     globalAlpha = 1,
                     background = None,
                     texts = [((if confidence typo = High then ''#dc3545'' else ''#ffc107''),
                               [8594, 32] @ toString (correction typo), x0 bbox, y0 bbox - 5)] \<rparr>
           | None \<Rightarrow>
               Inr \<lparr> kind = plainOutline,
                     i_rect = \<lparr> rx = x0 bbox, ry = y0 bbox, rw = width bbox, rh = height bbox \<rparr>,
                     strokeStyle = ''#28a745'',
                     lineWidth = 1,
                     globalAlpha = 0.3,
                     background = None,
                     texts = [] \<rparr>))"

fun drawWords :: "(jsstring \<rightharpoonup> typo) \<Rightarrow> wordData list \<Rightarrow> error + instruction list" where
  "drawWords tm [] = Inr []"
| "drawWords tm (word # rest) =
     (case drawWord tm word of
        Inl e \<Rightarrow> Inl e
      | Inr i \<Rightarrow> (case drawWords tm rest of Inl e \<Rightarrow> Inl e | Inr is \<Rightarrow> Inr (i # is)))"

definition drawLegend :: "int \<Rightarrow> int \<Rightarrow> instruction" where
  "drawLegend canvasWidth canvasHeight =
     (let legendX = canvasWidth - 200; legendY = 20
      in \<lparr> kind = legend,
            i_rect = \<lparr> rx = legendX, ry = legendY, rw = 180, rh = 80 \<rparr>,
            strokeStyle = ''#333'',
            lineWidth = 1,
            globalAlpha = 1,
            background = Some ''rgba(255, 255, 255, 0.9)'',
            texts = [(''#333'', js ''Legend:'', legendX + 10, legendY + 20),
                     (''#dc3545'', [9679] @ js '' High confidence typos'', legendX + 10, legendY + 40),
                     (''#ffc107'', [9679] @ js '' Possible typos'', legendX + 10, legendY + 55),
                     (''#28a745'', [9679] @ js '' Correct words'', legendX + 10, legendY + 70)] \<rparr>)"

text \<open>
  \<open>drawAnnotations(canvas, ctx, img, ocrResults, typos)\<close>. The canvas takes the size of
  the image (\<open>naturalWidth\<close>, \<open>naturalHeight\<close>), and the legend is drawn for that size.
  \<open>ocrResults.words.forEach\<close> throws when \<open>words\<close> is missing or has no such method.
\<close>

definition drawAnnotations :: "int \<Rightarrow> int \<Rightarrow> ocrResults \<Rightarrow> typo list \<Rightarrow> error + instruction list" where
  "drawAnnotations naturalWidth naturalHeight ocr typos =
     (case r_words ocr of
        NoWords \<Rightarrow> Inl TypeError
      | NotArray \<Rightarrow> Inl TypeError
      | WordArray ws \<Rightarrow>
          (case drawWords (typoMap typos) ws of
             Inl e \<Rightarrow> Inl e
           | Inr is \<Rightarrow> Inr (is @ [drawLegend naturalWidth naturalHeight])))"

section \<open>Inputs used in the examples\<close>

definition example_bbox :: bbox where
  "example_bbox = \<lparr> x0 = 10, y0 = 20, x1 = 50, y1 = 35, width = 40, height = 15 \<rparr>"

definition example_word :: "jsstring \<Rightarrow> wordData" where
  "example_word s = \<lparr> w_text = s, w_confidence = 0.92, w_bbox = Some example_bbox \<rparr>"

definition example_ocr :: "wordData list \<Rightarrow> ocrResults" where
  "example_ocr ws = \<lparr> r_text = [], r_words = WordArray ws, r_confidence = 0.92, r_word_count = length ws \<rparr>"

text \<open>
  The examples run the classifier on words whose code units are all below U+0100. On
  such a string the builtin \<open>toLowerCase\<close> works one code unit at a time: \<open>A\<close> to \<open>Z\<close>
  and U+00C0 to U+00DE, the multiplication sign U+00D7 apart, move up by 32, and every
  other code unit stays. The function below is what stands for the builtin in the
  examples, and only there.
\<close>

definition toLowerCase_latin1 :: "jsstring \<Rightarrow> jsstring" where
  "toLowerCase_latin1 s =
     map (\<lambda>c. if (65 \<le> c \<and> c \<le> 90) \<or> (192 \<le> c \<and> c \<le> 222 \<and> c \<noteq> 215) then c + 32 else c) s"

text \<open>An engine result for a page without words, with the given confidence (0 to 100).\<close>

definition example_data :: "real \<Rightarrow> tesseractData" where
  "example_data c = \<lparr> d_text = [], d_confidence = c, d_words = Some [] \<rparr>"

section \<open>Properties of the classifier\<close>

text \<open>In what follows \<open>lc\<close> stands for the builtin \<open>toLowerCase\<close>; it is arbitrary.\<close>

lemma detectLoop_append: "detectLoop lc this ws acc = acc @ detectLoop lc this ws []"
proof (induction ws arbitrary: acc)
  case Nil
  show ?case by simp
next
  case (Cons w ws)
  show ?case
  proof (cases "detectWord lc this w")
    case None
    then show ?thesis using Cons.IH [of acc] by simp
  next
    case (Some t)
    then show ?thesis using Cons.IH [of "acc @ [t]"] Cons.IH [of "[t]"] by simp
  qed
qed

lemma detectLoop_Cons:
  "detectLoop lc this (w # ws) [] =
     (case detectWord lc this w of None \<Rightarrow> [] | Some t \<Rightarrow> [t]) @ detectLoop lc this ws []"
proof (cases "detectWord lc this w")
  case None
  then show ?thesis by simp
next
  case (Some t)
  then show ?thesis using detectLoop_append [of lc this ws "[t]"] by simp
qed

lemma set_detectLoop:
  "set (detectLoop lc this ws []) = {t. \<exists>w \<in> set ws. detectWord lc this w = Some t}"
proof (induction ws)
  case Nil
  show ?case by simp
next
  case (Cons w ws)
  show ?case
    unfolding detectLoop_Cons using Cons.IH
    by (cases "detectWord lc this w") auto
qed

lemma detectLoop_app:
  "detectLoop lc this (xs @ ys) [] = detectLoop lc this xs [] @ detectLoop lc this ys []"
proof (induction xs)
  case Nil
  show ?case by simp
next
  case (Cons x xs)
  show ?case unfolding append_Cons detectLoop_Cons using Cons.IH by simp
qed

lemma detectTypos_in_context:
  assumes "r_words ocr = WordArray (pre @ w # post)"
  shows "fst (detectTypos lc this ocr) =
           detectLoop lc this pre [] @ (case detectWord lc this w of None \<Rightarrow> [] | Some t \<Rightarrow> [t])
             @ detectLoop lc this post []"
  using assms by (simp add: detectTypos_def detectLoop_app detectLoop_Cons del: detectLoop.simps)

lemma typoCorrections_entries:
  assumes "map_of (typoCorrections new_TypoDetector) k = Some v"
  shows "v \<noteq> [] \<and> 2 \<le> length k"
  using assms by (auto simp: new_TypoDetector_def js_def split: if_splits)

lemma detectWord_exact:
  assumes "map_of (typoCorrections new_TypoDetector) (cleanWord lc (w_text w)) = Some v"
  shows "detectWord lc new_TypoDetector w =
           Some \<lparr> original = w_text w, correction = Str v, confidence = High, t_bbox = w_bbox w,
                  t_position = \<lparr> p_x = (case w_bbox w of Some b \<Rightarrow> x0 b | None \<Rightarrow> 0),
                                 p_y = (case w_bbox w of Some b \<Rightarrow> y0 b | None \<Rightarrow> 0) \<rparr> \<rparr>"
proof -
  let ?key = "cleanWord lc (w_text w)"
  from typoCorrections_entries [OF assms] have v: "v \<noteq> []" and k: "2 \<le> length ?key"
    by simp_all
  have g: "typoCorrections_get new_TypoDetector ?key = Str v"
    using assms by (simp add: typoCorrections_get_def)
  have d: "dictionaryLookup lc new_TypoDetector (w_text w) ?key = (Str v, High)"
    using g v by (simp add: dictionaryLookup_def)
  have h: "heuristic lc new_TypoDetector (w_text w) ?key (Str v, High) = (Str v, High)"
    using v by (simp add: heuristic_def)
  show ?thesis using k v by (simp add: detectWord_def Let_def d h)
qed

lemma detectWord_tier:
  assumes "detectWord lc this w = Some t"
  shows "confidence t = High \<or> confidence t = Medium"
  using assms
  by (auto simp: detectWord_def Let_def heuristic_def dictionaryLookup_def
           split: if_splits option.splits prod.splits)

lemma detectWord_heuristic:
  assumes "\<not> truthy (fst (dictionaryLookup lc this (w_text w) (cleanWord lc (w_text w))))"
    and "cleanWord lc (w_text w) \<notin> set (commonWords this)"
    and "4 < length (cleanWord lc (w_text w))"
    and "suspiciousPatterns (w_text w)"
    and "lc (suggest (w_text w)) \<noteq> []"
  shows "detectWord lc this w =
           (if suggest (w_text w) \<noteq> w_text w
            then Some \<lparr> original = w_text w, correction = Str (lc (suggest (w_text w))),
                    confidence = Medium, t_bbox = w_bbox w,
                    t_position = \<lparr> p_x = (case w_bbox w of Some b \<Rightarrow> x0 b | None \<Rightarrow> 0),
                                   p_y = (case w_bbox w of Some b \<Rightarrow> y0 b | None \<Rightarrow> 0) \<rparr> \<rparr>
            else None)"
proof -
  let ?key = "cleanWord lc (w_text w)"
  obtain corr conf where d: "dictionaryLookup lc this (w_text w) ?key = (corr, conf)"
    by (cases "dictionaryLookup lc this (w_text w) ?key")
  with assms(1) have f: "\<not> truthy corr" by simp
  show ?thesis using assms(2-5) f
    by (simp add: detectWord_def Let_def d heuristic_def)
qed

lemma cleanWord_chars: "c \<in> set (cleanWord lc s) \<Longrightarrow> isWordChar c"
  by (simp add: cleanWord_def)

text \<open>
  Whatever the builtin gives, a cleaned key is made of \<open>[A-Za-z0-9_]\<close>, and every key of
  the second table starts with another code unit: no cleaned key is a key of that table.
\<close>

lemma cleanWord_not_chinese:
  "cleanWord lc s \<notin> fst ` set (chineseTypoCorrections new_TypoDetector)"
proof
  assume a: "cleanWord lc s \<in> fst ` set (chineseTypoCorrections new_TypoDetector)"
  have "\<forall>k \<in> fst ` set (chineseTypoCorrections new_TypoDetector). \<not> isWordChar (hd k) \<and> k \<noteq> []"
    by (simp add: new_TypoDetector_def isWordChar_def)
  with a have "\<not> isWordChar (hd (cleanWord lc s))" and "cleanWord lc s \<noteq> []" by blast+
  then show False using cleanWord_chars [of "hd (cleanWord lc s)" lc s] by simp
qed

text \<open>
  \<open>detectTypos\<close> never reads \<open>this.chineseTypoCorrections\<close>: what it returns is the same
  whatever that table holds.
\<close>

lemma detectWord_chinese_table_irrelevant:
  "detectWord lc (this\<lparr>chineseTypoCorrections := T\<rparr>) w = detectWord lc this w"
  by (simp add: detectWord_def Let_def heuristic_def dictionaryLookup_def typoCorrections_get_def)

lemma detectTypos_chinese_table_irrelevant:
  "fst (detectTypos lc (this\<lparr>chineseTypoCorrections := T\<rparr>) ocr) = fst (detectTypos lc this ocr)"
proof -
  have l: "detectLoop lc (this\<lparr>chineseTypoCorrections := T\<rparr>) ws acc = detectLoop lc this ws acc"
    for ws acc
    by (induction ws arbitrary: acc)
       (simp_all add: detectWord_chinese_table_irrelevant split: option.split)
  show ?thesis by (simp add: detectTypos_def l split: words_field.split)
qed

text \<open>
  C10. If the OCR result handed to \<open>detectTypos\<close> has no \<open>words\<close> property, or one that
  is not an array, the call returns the empty list of candidates (it does not throw).
\<close>

theorem detectTypos_without_words:
  "fst (detectTypos lc this (ocr\<lparr>r_words := NoWords\<rparr>)) = []
   \<and> fst (detectTypos lc this (ocr\<lparr>r_words := NotArray\<rparr>)) = []"
  by (simp add: detectTypos_def)

text \<open>
  C8. Classifying the same OCR result twice gives the same candidates: the first call
  leaves the detector object as it found it, so the second call, run on the detector
  the first one left, returns an identical list.
\<close>

theorem detectTypos_twice:
  "(case detectTypos lc this ocr of (typos1, this1) \<Rightarrow>
      (case detectTypos lc this1 ocr of (typos2, this2) \<Rightarrow>
         typos1 = typos2 \<and> this1 = this \<and> this2 = this))"
  by (simp add: detectTypos_def split: words_field.split)

text \<open>The definitions unfolded to run the classifier on a concrete word.\<close>

lemmas eval_defs = example_ocr_def example_word_def example_bbox_def js_def cleanWord_def
  toLowerCase_latin1_def isWordChar_def new_TypoDetector_def detectTypos_def detectWord_def
  heuristic_def dictionaryLookup_def typoCorrections_get_def inheritedFunctions_def suggest_def
  replaceAll_def is1l_def is0o_def

text \<open>
  C7. A word whose cleaned key (\<open>cleanedWord\<close>, whatever the builtin makes of the text) is
  a key of the English correction table gives a candidate with tier \<open>high\<close> whose
  correction is the value the table holds for that key, wherever the word stands in the
  document (the other words contribute what the loop gives for them). The example after
  it is the word \<open>teh\<close>.
\<close>

theorem exact_dictionary_match_high:
  assumes "r_words ocr = WordArray (pre @ w # post)"
    and "map_of (typoCorrections new_TypoDetector) (cleanWord lc (w_text w)) = Some v"
  shows "fst (detectTypos lc new_TypoDetector ocr) =
           detectLoop lc new_TypoDetector pre [] @
           [\<lparr> original = w_text w, correction = Str v, confidence = High, t_bbox = w_bbox w,
              t_position = \<lparr> p_x = (case w_bbox w of Some b \<Rightarrow> x0 b | None \<Rightarrow> 0),
                             p_y = (case w_bbox w of Some b \<Rightarrow> y0 b | None \<Rightarrow> 0) \<rparr> \<rparr>] @
           detectLoop lc new_TypoDetector post []"
  using detectTypos_in_context [OF assms(1), of lc new_TypoDetector] detectWord_exact [OF assms(2)]
  by simp

text \<open>
  The word \<open>teh\<close>: the candidate is \<open>{original: "teh", correction: "the", confidence: "high"}\<close>.
\<close>

theorem exact_dictionary_match_high_witness:
  "r_words (example_ocr [example_word (js ''teh'')]) = WordArray ([] @ example_word (js ''teh'') # [])
   \<and> map_of (typoCorrections new_TypoDetector)
        (cleanWord toLowerCase_latin1 (w_text (example_word (js ''teh'')))) = Some (js ''the'')
   \<and> fst (detectTypos toLowerCase_latin1 new_TypoDetector (example_ocr [example_word (js ''teh'')])) =
       [\<lparr> original = js ''teh'', correction = Str (js ''the''), confidence = High,
          t_bbox = Some example_bbox, t_position = \<lparr> p_x = 10, p_y = 20 \<rparr> \<rparr>]"
proof -
  have h1: "r_words (example_ocr [example_word (js ''teh'')]) = WordArray ([] @ example_word (js ''teh'') # [])"
    by (simp add: example_ocr_def)
  have h2: "map_of (typoCorrections new_TypoDetector)
              (cleanWord toLowerCase_latin1 (w_text (example_word (js ''teh'')))) = Some (js ''the'')"
    by (simp add: example_word_def js_def cleanWord_def toLowerCase_latin1_def isWordChar_def
          new_TypoDetector_def)
  show ?thesis
    using h1 h2 exact_dictionary_match_high [OF h1 h2]
    by (simp add: example_word_def example_bbox_def)
qed

text \<open>
  C9. Every candidate \<open>detectTypos\<close> returns has tier \<open>high\<close> or \<open>medium\<close>, whatever the
  tables of the detector hold; so \<open>getTypoStats\<close> counts no candidate of tier \<open>low\<close>
  in a list that \<open>detectTypos\<close> returned.
\<close>

theorem tiers_high_or_medium:
  "(\<forall>t \<in> set (fst (detectTypos lc this ocr)). confidence t = High \<or> confidence t = Medium)
   \<and> low_confidence (getTypoStats (fst (detectTypos lc this ocr))) = 0"
proof -
  have a: "\<forall>t \<in> set (fst (detectTypos lc this ocr)). confidence t = High \<or> confidence t = Medium"
    by (auto simp: detectTypos_def set_detectLoop dest: detectWord_tier split: words_field.splits)
  then have "filter (\<lambda>t. confidence t = Low) (fst (detectTypos lc this ocr)) = []"
    by (auto simp: filter_empty_conv)
  then show ?thesis using a by (simp add: getTypoStats_def)
qed

text \<open>
  A document with the words \<open>teh\<close>, \<open>the\<close> and \<open>he11o\<close>: two candidates, of tier
  \<open>high\<close> and \<open>medium\<close>.
\<close>

theorem tiers_high_or_medium_witness:
  "map confidence (fst (detectTypos toLowerCase_latin1 new_TypoDetector
       (example_ocr [example_word (js ''teh''), example_word (js ''the''), example_word (js ''he11o'')])))
     = [High, Medium]
   \<and> low_confidence (getTypoStats (fst (detectTypos toLowerCase_latin1 new_TypoDetector
       (example_ocr [example_word (js ''teh''), example_word (js ''the''), example_word (js ''he11o'')])))) = 0"
  using tiers_high_or_medium [of toLowerCase_latin1 new_TypoDetector
       "example_ocr [example_word (js ''teh''), example_word (js ''the''), example_word (js ''he11o'')]"]
  by (simp add: eval_defs)

text \<open>
  C2, as the spec states it, fails: the word \<open>balloon\<close> has a key longer than 4, is not
  a common word, contains no key of the table and matches the glyph pattern (\<open>ll\<close>, \<open>oo\<close>),
  the repair leaves it as it is, and no candidate is pushed for it.
\<close>

theorem unrepaired_word_counterexample:
  "4 < length (cleanWord toLowerCase_latin1 (js ''balloon''))
   \<and> cleanWord toLowerCase_latin1 (js ''balloon'') \<notin> set (commonWords new_TypoDetector)
   \<and> suspiciousPatterns (js ''balloon'')
   \<and> suggest (js ''balloon'') = js ''balloon''
   \<and> fst (detectTypos toLowerCase_latin1 new_TypoDetector (example_ocr [example_word (js ''balloon'')])) = []"
  by (simp add: eval_defs)

text \<open>
  C2, amended. For a word that reaches the heuristic (no correction from the table, key
  longer than 4 and not a common word, text matching the glyph pattern), a candidate of
  tier \<open>medium\<close> is pushed exactly when the repair changes the text, and its correction
  is the lower-cased repaired text; when the repair changes nothing, no candidate is
  pushed for the word (\<open>typos.push\<close> is under \<open>if (correction)\<close>). The key, the lookup and
  the correction are what the code computes with the builtin, whatever it is; the last
  hypothesis says that the lower-cased repaired text is not the empty string, which a
  builtin that keeps a non-empty string non-empty always gives.
\<close>

theorem heuristic_medium_when_repaired:
  assumes "r_words ocr = WordArray (pre @ w # post)"
    and "\<not> truthy (fst (dictionaryLookup lc this (w_text w) (cleanWord lc (w_text w))))"
    and "cleanWord lc (w_text w) \<notin> set (commonWords this)"
    and "4 < length (cleanWord lc (w_text w))"
    and "suspiciousPatterns (w_text w)"
    and "lc (suggest (w_text w)) \<noteq> []"
  shows "fst (detectTypos lc this ocr) =
           detectLoop lc this pre [] @
           (if suggest (w_text w) \<noteq> w_text w
            then [\<lparr> original = w_text w, correction = Str (lc (suggest (w_text w))),
                    confidence = Medium, t_bbox = w_bbox w,
                    t_position = \<lparr> p_x = (case w_bbox w of Some b \<Rightarrow> x0 b | None \<Rightarrow> 0),
                                   p_y = (case w_bbox w of Some b \<Rightarrow> y0 b | None \<Rightarrow> 0) \<rparr> \<rparr>]
            else []) @
           detectLoop lc this post []"
  using detectTypos_in_context [OF assms(1), of lc this] detectWord_heuristic [OF assms(2-6)]
  by simp

text \<open>
  The word \<open>he11o\<close>: repaired to \<open>hello\<close>, tier \<open>medium\<close>.
\<close>

theorem heuristic_medium_when_repaired_witness:
  "r_words (example_ocr [example_word (js ''he11o'')]) = WordArray ([] @ example_word (js ''he11o'') # [])
   \<and> \<not> truthy (fst (dictionaryLookup toLowerCase_latin1 new_TypoDetector
                       (w_text (example_word (js ''he11o'')))
                       (cleanWord toLowerCase_latin1 (w_text (example_word (js ''he11o''))))))
   \<and> cleanWord toLowerCase_latin1 (w_text (example_word (js ''he11o''))) \<notin> set (commonWords new_TypoDetector)
   \<and> 4 < length (cleanWord toLowerCase_latin1 (w_text (example_word (js ''he11o''))))
   \<and> suspiciousPatterns (w_text (example_word (js ''he11o'')))
   \<and> toLowerCase_latin1 (suggest (w_text (example_word (js ''he11o'')))) \<noteq> []
   \<and> fst (detectTypos toLowerCase_latin1 new_TypoDetector (example_ocr [example_word (js ''he11o'')])) =
       [\<lparr> original = js ''he11o'', correction = Str (js ''hello''), confidence = Medium,
          t_bbox = Some example_bbox, t_position = \<lparr> p_x = 10, p_y = 20 \<rparr> \<rparr>]"
proof -
  let ?w = "example_word (js ''he11o'')"
  let ?lc = toLowerCase_latin1
  have h1: "r_words (example_ocr [?w]) = WordArray ([] @ ?w # [])"
    by (simp add: example_ocr_def)
  have h2: "\<not> truthy (fst (dictionaryLookup ?lc new_TypoDetector (w_text ?w) (cleanWord ?lc (w_text ?w))))"
    by (simp add: eval_defs)
  have h3: "cleanWord ?lc (w_text ?w) \<notin> set (commonWords new_TypoDetector)"
    by (simp add: eval_defs)
  have h4: "4 < length (cleanWord ?lc (w_text ?w))"
    by (simp add: eval_defs)
  have h5: "suspiciousPatterns (w_text ?w)"
    by (simp add: eval_defs)
  have h6: "?lc (suggest (w_text ?w)) \<noteq> []"
    by (simp add: eval_defs)
  have r: "suggest (js ''he11o'') \<noteq> js ''he11o''"
    by (simp add: js_def suggest_def replaceAll_def)
  have c: "toLowerCase_latin1 (suggest (js ''he11o'')) = js ''hello''"
    by (simp add: js_def suggest_def replaceAll_def toLowerCase_latin1_def)
  show ?thesis
    using h1 h2 h3 h4 h5 h6 heuristic_medium_when_repaired [OF h1 h2 h3 h4 h5 h6]
    by (simp add: example_word_def example_bbox_def r c)
qed


text \<open>
  The lookup does not find an entry of the second table even when the cleaned key is
  one of its keys: with the entry \<open>abcde\<close> added to that table of the detector, the
  word \<open>abcde\<close> has the key \<open>abcde\<close> and still gets no candidate.
\<close>

lemma added_entry_not_found:
  "map_of (chineseTypoCorrections
             (new_TypoDetector\<lparr>chineseTypoCorrections :=
                (js ''abcde'', js ''xyz'') # chineseTypoCorrections new_TypoDetector\<rparr>))
          (cleanWord toLowerCase_latin1 (js ''abcde'')) = Some (js ''xyz'')
   \<and> fst (detectTypos toLowerCase_latin1
             (new_TypoDetector\<lparr>chineseTypoCorrections :=
                (js ''abcde'', js ''xyz'') # chineseTypoCorrections new_TypoDetector\<rparr>)
             (example_ocr [example_word (js ''abcde'')])) = []"
  by (simp add: eval_defs)

section \<open>Properties of the normalizer and the retry\<close>


lemma processOCRResults_boxes:
  assumes "processOCRResults d = Inr r"
  shows "\<exists>ws. r_words r = WordArray ws \<and> (\<forall>w \<in> set ws. w_bbox w \<noteq> None)"
proof -
  have m: "mapWords ews = Inr ws \<Longrightarrow> \<forall>w \<in> set ws. w_bbox w \<noteq> None" for ews ws
    by (induction ews arbitrary: ws)
       (auto simp: convertWord_def split: sum.splits option.splits)
  show ?thesis using assms m
    by (auto simp: processOCRResults_def split: option.splits sum.splits)
qed

text \<open>
  Both results compared by \<open>retryWithTraditionalChinese\<close> come out of
  \<open>processOCRResults\<close>, which divides the confidence of the engine by 100. With engine
  confidences between 0 and 100 the retry is never more than 1 above the original, so
  the margin of 10 is never met and the original results are always kept.
\<close>

lemma retry_never_replaces_on_percent_scale:
  assumes "processOCRResults first = Inr ocr"
    and "0 \<le> d_confidence first"
    and "\<And>d. recognized = Inr d \<Longrightarrow> d_confidence d \<le> 100"
  shows "retryWithTraditionalChinese ocr recognized = ocr"
proof (cases recognized)
  case (Inl e)
  then show ?thesis by (simp add: retryWithTraditionalChinese_def)
next
  case (Inr d)
  with assms(3) have d: "d_confidence d \<le> 100" by simp
  from assms(1) have c: "r_confidence ocr = d_confidence first / 100"
    by (auto simp: processOCRResults_def split: option.splits sum.splits)
  have "\<not> r_confidence r > r_confidence ocr + 10" if "processOCRResults d = Inr r" for r
  proof -
    from that have "r_confidence r = d_confidence d / 100"
      by (auto simp: processOCRResults_def split: option.splits sum.splits)
    then show ?thesis using c d assms(2) by simp
  qed
  then show ?thesis using Inr
    by (auto simp: retryWithTraditionalChinese_def split: sum.splits)
qed

text \<open>
  C1. The spec has the retry replace the original exactly when its confidence is more
  than 10 percentage points higher: original 15% and retry 23% keep the original, retry
  30% is chosen. On the code, an engine confidence of 15 is stored as 0.15 and one of 30
  as 0.30, the test is \<open>0.30 > 0.15 + 10\<close>, and the original is kept in both cases.
\<close>

theorem retry_margin_never_met:
  "processOCRResults (example_data 15) =
     Inr \<lparr> r_text = [], r_words = WordArray [], r_confidence = 15 / 100, r_word_count = 0 \<rparr>
   \<and> processOCRResults (example_data 30) =
     Inr \<lparr> r_text = [], r_words = WordArray [], r_confidence = 30 / 100, r_word_count = 0 \<rparr>
   \<and> retryWithTraditionalChinese
       \<lparr> r_text = [], r_words = WordArray [], r_confidence = 15 / 100, r_word_count = 0 \<rparr>
       (Inr (example_data 23))
     = \<lparr> r_text = [], r_words = WordArray [], r_confidence = 15 / 100, r_word_count = 0 \<rparr>
   \<and> retryWithTraditionalChinese
       \<lparr> r_text = [], r_words = WordArray [], r_confidence = 15 / 100, r_word_count = 0 \<rparr>
       (Inr (example_data 30))
     = \<lparr> r_text = [], r_words = WordArray [], r_confidence = 15 / 100, r_word_count = 0 \<rparr>"
  by (simp add: retryWithTraditionalChinese_def processOCRResults_def example_data_def)




section \<open>Properties of the layout\<close>

lemma drawWords_ok:
  assumes "\<forall>w \<in> set ws. w_bbox w \<noteq> None"
  shows "\<exists>is. drawWords tm ws = Inr is \<and> length is = length ws
              \<and> (\<forall>i < length ws. kind (is ! i) =
                     (if tm (w_text (ws ! i)) = None then plainOutline else typoHighlight))"
  using assms
proof (induction ws)
  case Nil
  show ?case by simp
next
  case (Cons w ws)
  then obtain ins where ih: "drawWords tm ws = Inr ins" "length ins = length ws"
      "\<forall>i < length ws. kind (ins ! i) =
          (if tm (w_text (ws ! i)) = None then plainOutline else typoHighlight)"
    by auto
  from Cons.prems obtain b where b: "w_bbox w = Some b" by auto
  obtain i0 where i0: "drawWord tm w = Inr i0"
      "kind i0 = (if tm (w_text w) = None then plainOutline else typoHighlight)"
    using b by (cases "tm (w_text w)") (auto simp: drawWord_def)
  have "\<forall>i < length (w # ws). kind ((i0 # ins) ! i) =
          (if tm (w_text ((w # ws) ! i)) = None then plainOutline else typoHighlight)"
    using ih(3) i0(2) by (auto simp: nth_Cons split: nat.splits)
  then show ?case using ih(1,2) i0(1) by simp
qed

text \<open>
  C5. For an OCR result whose \<open>words\<close> is an array of words with a box (what
  \<open>processOCRResults\<close> returns, by \<open>processOCRResults_boxes\<close>), and any list of candidates and
  canvas size, \<open>drawAnnotations\<close> gives exactly \<open>length words + 1\<close> instructions: one for
  each word, in order, a typo highlight when the text of the word is a key of the typo
  map and a plain outline otherwise, and then the legend. This holds for no words too.
\<close>

theorem layout_instruction_count:
  assumes "r_words ocr = WordArray ws"
    and "\<forall>w \<in> set ws. w_bbox w \<noteq> None"
  shows "\<exists>is. drawAnnotations naturalWidth naturalHeight ocr typos = Inr is
            \<and> length is = length ws + 1
            \<and> (\<forall>i < length ws. kind (is ! i) =
                  (if typoMap typos (w_text (ws ! i)) = None then plainOutline else typoHighlight))
            \<and> kind (is ! length ws) = legend"
proof -
  obtain ds where ds: "drawWords (typoMap typos) ws = Inr ds" "length ds = length ws"
      "\<forall>i < length ws. kind (ds ! i) =
          (if typoMap typos (w_text (ws ! i)) = None then plainOutline else typoHighlight)"
    using drawWords_ok [OF assms(2), of "typoMap typos"] by auto
  have "drawAnnotations naturalWidth naturalHeight ocr typos
          = Inr (ds @ [drawLegend naturalWidth naturalHeight])"
    using assms(1) ds(1) by (simp add: drawAnnotations_def)
  moreover have "kind ((ds @ [drawLegend naturalWidth naturalHeight]) ! length ws) = legend"
    using ds(2) by (simp add: nth_append drawLegend_def)
  moreover have "\<forall>i < length ws. kind ((ds @ [drawLegend naturalWidth naturalHeight]) ! i) =
          (if typoMap typos (w_text (ws ! i)) = None then plainOutline else typoHighlight)"
    using ds(2,3) by (simp add: nth_append)
  ultimately show ?thesis using ds(2) by simp
qed

text \<open>
  Two words, \<open>teh\<close> (a typo) and \<open>the\<close>: a highlight, an outline and the legend. No
  words: the legend alone.
\<close>

theorem layout_instruction_count_witness:
  "r_words (example_ocr [example_word (js ''teh''), example_word (js ''the'')])
     = WordArray [example_word (js ''teh''), example_word (js ''the'')]
   \<and> w_bbox (example_word (js ''teh'')) \<noteq> None \<and> w_bbox (example_word (js ''the'')) \<noteq> None
   \<and> drawAnnotations 800 600 (example_ocr [example_word (js ''teh''), example_word (js ''the'')])
         (fst (detectTypos toLowerCase_latin1 new_TypoDetector (example_ocr [example_word (js ''teh''), example_word (js ''the'')])))
       = Inr [\<lparr> kind = typoHighlight, i_rect = \<lparr> rx = 10, ry = 20, rw = 40, rh = 15 \<rparr>,
                 strokeStyle = ''#dc3545'', lineWidth = 3, globalAlpha = 1, background = None,
                 texts = [(''#dc3545'', [8594, 32] @ js ''the'', 10, 15)] \<rparr>,
              \<lparr> kind = plainOutline, i_rect = \<lparr> rx = 10, ry = 20, rw = 40, rh = 15 \<rparr>,
                 strokeStyle = ''#28a745'', lineWidth = 1, globalAlpha = 0.3, background = None,
                 texts = [] \<rparr>,
              drawLegend 800 600]
   \<and> r_words (example_ocr []) = WordArray []
   \<and> drawAnnotations 800 600 (example_ocr []) [] = Inr [drawLegend 800 600]"
proof -
  let ?ws = "[example_word (js ''teh''), example_word (js ''the'')]"
  have h1: "r_words (example_ocr ?ws) = WordArray ?ws" by (simp add: example_ocr_def)
  have h2: "\<forall>w \<in> set ?ws. w_bbox w \<noteq> None" by (simp add: example_word_def)
  have h3: "r_words (example_ocr []) = WordArray []" by (simp add: example_ocr_def)
  have h4: "\<forall>w \<in> set ([] :: wordData list). w_bbox w \<noteq> None" by simp
  have t: "fst (detectTypos toLowerCase_latin1 new_TypoDetector (example_ocr ?ws)) =
       [\<lparr> original = js ''teh'', correction = Str (js ''the''), confidence = High,
          t_bbox = Some example_bbox, t_position = \<lparr> p_x = 10, p_y = 20 \<rparr> \<rparr>]"
    by (simp add: eval_defs)
  show ?thesis
    using layout_instruction_count [OF h1 h2, of 800 600 "fst (detectTypos toLowerCase_latin1 new_TypoDetector (example_ocr ?ws))"]
      layout_instruction_count [OF h3 h4, of 800 600 "[]"]
    unfolding t
    by (simp add: drawAnnotations_def drawWord_def typoMap_def example_ocr_def example_word_def
          example_bbox_def js_def)
qed

lemma drawAnnotations_last:
  assumes "drawAnnotations naturalWidth naturalHeight ocr typos = Inr is"
  shows "is \<noteq> [] \<and> last is = drawLegend naturalWidth naturalHeight"
  using assms by (auto simp: drawAnnotations_def split: words_field.splits sum.splits)

text \<open>
  C6. Two layouts with the same canvas width, whatever their words, candidates and canvas
  heights, end with a legend whose rectangle is the same: 180 by 80, at
  \<open>x = canvasWidth - 200\<close> and \<open>y = 20\<close>, so 20 units from the right edge and 20 from the
  top.
\<close>

theorem legend_position:
  assumes "drawAnnotations canvasWidth height1 ocr1 typos1 = Inr is1"
    and "drawAnnotations canvasWidth height2 ocr2 typos2 = Inr is2"
  shows "kind (last is1) = legend \<and> kind (last is2) = legend
       \<and> i_rect (last is1) = i_rect (last is2)
       \<and> i_rect (last is1) = \<lparr> rx = canvasWidth - 200, ry = 20, rw = 180, rh = 80 \<rparr>
       \<and> canvasWidth - (rx (i_rect (last is1)) + rw (i_rect (last is1))) = 20"
  using drawAnnotations_last [OF assms(1)] drawAnnotations_last [OF assms(2)]
  by (simp add: drawLegend_def)

text \<open>
  Width 800, with one word and height 600, and with no word and height 400: the legend
  is at (600, 20) in both.
\<close>

theorem legend_position_witness:
  "drawAnnotations 800 600 (example_ocr [example_word (js ''balloon'')]) []
     = Inr [\<lparr> kind = plainOutline, i_rect = \<lparr> rx = 10, ry = 20, rw = 40, rh = 15 \<rparr>,
                strokeStyle = ''#28a745'', lineWidth = 1, globalAlpha = 0.3, background = None,
                texts = [] \<rparr>,
             drawLegend 800 600]
   \<and> drawAnnotations 800 400 (example_ocr []) [] = Inr [drawLegend 800 400]
   \<and> i_rect (drawLegend 800 600) = \<lparr> rx = 600, ry = 20, rw = 180, rh = 80 \<rparr>
   \<and> i_rect (drawLegend 800 400) = \<lparr> rx = 600, ry = 20, rw = 180, rh = 80 \<rparr>"
proof -
  have h1: "drawAnnotations 800 600 (example_ocr [example_word (js ''balloon'')]) []
     = Inr [\<lparr> kind = plainOutline, i_rect = \<lparr> rx = 10, ry = 20, rw = 40, rh = 15 \<rparr>,
                strokeStyle = ''#28a745'', lineWidth = 1, globalAlpha = 0.3, background = None,
                texts = [] \<rparr>,
             drawLegend 800 600]"
    by (simp add: drawAnnotations_def drawWord_def typoMap_def example_ocr_def example_word_def
          example_bbox_def)
  have h2: "drawAnnotations 800 400 (example_ocr []) [] = Inr [drawLegend 800 400]"
    by (simp add: drawAnnotations_def example_ocr_def)
  show ?thesis using h1 h2 legend_position [OF h1 h2] by (simp add: drawLegend_def)
qed

end
